theory Spec2Isabelle
  imports Complex_Main "HOL-Library.Monad_Syntax"
begin

section \<open>JavaScript values\<close>

text \<open>
  The worker is TypeScript; its type annotations are erased before it runs, and the value
  a classifier sends back is whatever \<open>JSON.parse\<close> produced. The model therefore works on
  run-time values. A number is an IEEE double: \<open>NaN\<close>, the two infinities, or a finite
  value, which is kept as the real number it denotes (the code only compares numbers and
  takes minima and maxima of them, and these operations are exact on doubles). A string is
  a list of code units below 256.
\<close>

datatype jsnum = NaN | NegInf | Fin real | PosInf

datatype jsval =
    JUndefined
  | JNull
  | JBool bool
  | JNum jsnum
  | JStr string
  | JArr "jsval list"
  | JObj "(string \<times> jsval) list"

text \<open>
  The parts of the JavaScript run time that the sources call and do not define. None means
  that the call throws (\<open>SyntaxError\<close> for \<open>JSON.parse\<close>, \<open>TypeError\<close> for the conversion
  of an object that shadows \<open>toString\<close>).
\<close>

record Runtime =
  JSON_parse :: "string \<Rightarrow> jsval option"
  StringToNumber :: "string \<Rightarrow> jsnum"
  NumberToString :: "jsnum \<Rightarrow> string"
  ObjectToString :: "jsval \<Rightarrow> string option"

fun num_truthy :: "jsnum \<Rightarrow> bool" where
  "num_truthy NaN = False"
| "num_truthy (Fin r) = (r \<noteq> 0)"
| "num_truthy NegInf = True"
| "num_truthy PosInf = True"

fun truthy :: "jsval \<Rightarrow> bool" where
  "truthy JUndefined = False"
| "truthy JNull = False"
| "truthy (JBool b) = b"
| "truthy (JNum n) = num_truthy n"
| "truthy (JStr s) = (s \<noteq> [])"
| "truthy (JArr xs) = True"
| "truthy (JObj kvs) = True"

text \<open>\<open>a || b\<close>\<close>

definition js_or :: "jsval \<Rightarrow> jsval \<Rightarrow> jsval" where
  "js_or a b = (if truthy a then a else b)"

definition num_or :: "jsnum \<Rightarrow> jsnum \<Rightarrow> jsnum" where
  "num_or a b = (if num_truthy a then a else b)"

text \<open>
  \<open>v.k\<close> for the property names the worker reads (\<open>response\<close>, \<open>category\<close>, \<open>sentiment\<close>,
  \<open>urgency\<close>, \<open>suggestedTeam\<close>, \<open>keywords\<close>): none of them is defined on a built-in
  prototype, so the read gives \<open>undefined\<close> on every value that is not an object holding
  the key, and throws on \<open>null\<close> and \<open>undefined\<close>.
\<close>

fun js_get :: "jsval \<Rightarrow> string \<Rightarrow> jsval option" where
  "js_get JUndefined k = None"
| "js_get JNull k = None"
| "js_get (JObj kvs) k = Some (case map_of kvs k of None \<Rightarrow> JUndefined | Some v \<Rightarrow> v)"
| "js_get v k = Some JUndefined"

text \<open>\<open>String(v)\<close>\<close>

fun js_String :: "Runtime \<Rightarrow> jsval \<Rightarrow> string option" where
  "js_String rt (JStr s) = Some s"
| "js_String rt JUndefined = Some ''undefined''"
| "js_String rt JNull = Some ''null''"
| "js_String rt (JBool b) = Some (if b then ''true'' else ''false'')"
| "js_String rt (JNum n) = Some (NumberToString rt n)"
| "js_String rt v = ObjectToString rt v"

text \<open>\<open>Number(v)\<close>\<close>

fun js_Number :: "Runtime \<Rightarrow> jsval \<Rightarrow> jsnum option" where
  "js_Number rt JUndefined = Some NaN"
| "js_Number rt JNull = Some (Fin 0)"
| "js_Number rt (JBool b) = Some (Fin (if b then 1 else 0))"
| "js_Number rt (JNum n) = Some n"
| "js_Number rt (JStr s) = Some (StringToNumber rt s)"
| "js_Number rt v = map_option (StringToNumber rt) (ObjectToString rt v)"

text \<open>The order of the doubles that are not \<open>NaN\<close>, and \<open>Math.max\<close>, \<open>Math.min\<close> on two arguments.\<close>

fun num_le :: "jsnum \<Rightarrow> jsnum \<Rightarrow> bool" where
  "num_le NaN b = False"
| "num_le a NaN = False"
| "num_le NegInf b = True"
| "num_le a PosInf = True"
| "num_le (Fin x) (Fin y) = (x \<le> y)"
| "num_le PosInf b = False"
| "num_le a NegInf = False"

definition Math_max :: "jsnum \<Rightarrow> jsnum \<Rightarrow> jsnum" where
  "Math_max a b = (if a = NaN \<or> b = NaN then NaN else if num_le a b then b else a)"

definition Math_min :: "jsnum \<Rightarrow> jsnum \<Rightarrow> jsnum" where
  "Math_min a b = (if a = NaN \<or> b = NaN then NaN else if num_le a b then a else b)"

subsection \<open>Strings\<close>

definition is_space :: "char \<Rightarrow> bool" where
  "is_space c = (c \<in> {CHR '' '', CHR 0x09, CHR 0x0A, CHR 0x0B, CHR 0x0C, CHR 0x0D, CHR 0xA0})"

definition trim_end :: "string \<Rightarrow> string" where
  "trim_end s = rev (dropWhile is_space (rev s))"

definition js_trim :: "string \<Rightarrow> string" where
  "js_trim s = trim_end (dropWhile is_space s)"

text \<open>\<open>s.indexOf(c)\<close> and \<open>s.lastIndexOf(c)\<close> for a one-character needle; \<open>-1\<close> when absent.\<close>

fun indexOf :: "string \<Rightarrow> char \<Rightarrow> int" where
  "indexOf [] c = -1"
| "indexOf (x # xs) c =
     (if x = c then 0 else (let i = indexOf xs c in if i = -1 then -1 else i + 1))"

definition lastIndexOf :: "string \<Rightarrow> char \<Rightarrow> int" where
  "lastIndexOf s c =
     (let i = indexOf (rev s) c in if i = -1 then -1 else int (length s) - 1 - i)"

text \<open>\<open>s.slice(a, b)\<close> for \<open>a, b \<ge> 0\<close>; empty when \<open>b \<le> a\<close>.\<close>

definition slice :: "string \<Rightarrow> int \<Rightarrow> int \<Rightarrow> string" where
  "slice s a b = take (nat (b - a)) (drop (nat a) s)"

text \<open>The text before and after the first occurrence of a pattern.\<close>

fun split_first :: "string \<Rightarrow> string \<Rightarrow> (string \<times> string) option" where
  "split_first pat [] = (if pat = [] then Some ([], []) else None)"
| "split_first pat (x # xs) =
     (if take (length pat) (x # xs) = pat then Some ([], drop (length pat) (x # xs))
      else map_option (\<lambda>(b, a). (x # b, a)) (split_first pat xs))"

text \<open>
  \<open>jsonStr.match(/```(?:json)?\s*([\s\S]*?)\s*```/)\<close>: the first capture group, or None
  when the pattern does not match. The match starts at the first fence; \<open>json\<close> and white
  space after it are consumed greedily; the lazy group ends where the white space before
  the next fence starts.
\<close>

definition codeMatch :: "string \<Rightarrow> string option" where
  "codeMatch s =
     (case split_first ''```'' s of
        None \<Rightarrow> None
      | Some (pre, rest) \<Rightarrow>
          (let rest1 = (if take 4 rest = ''json'' then drop 4 rest else rest);
               rest2 = dropWhile is_space rest1
           in map_option (\<lambda>(body, post). trim_end body) (split_first ''```'' rest2)))"

section \<open>Classification normalizer\<close>

record FeedbackAnalysis =
  analysis_category :: string
  analysis_sentiment :: jsval
  analysis_urgency :: jsnum
  analysis_suggestedTeam :: jsval
  analysis_keywords :: "jsval list"

definition defaultAnalysis :: FeedbackAnalysis where
  "defaultAnalysis =
     \<lparr> analysis_category = ''Other'', analysis_sentiment = JStr ''Neutral'',
       analysis_urgency = Fin 5, analysis_suggestedTeam = JStr ''product'',
       analysis_keywords = [] \<rparr>"

text \<open>
  \<open>typeof response === 'string' ? response : (response as any).response || ''\<close>, followed by
  \<open>raw.trim()\<close>, which throws when \<open>raw\<close> is not a string.
\<close>

definition rawResponse :: "jsval \<Rightarrow> string option" where
  "rawResponse response =
     (case response of
        JStr s \<Rightarrow> Some s
      | _ \<Rightarrow> do {
          r \<leftarrow> js_get response ''response'';
          (case js_or r (JStr []) of JStr s \<Rightarrow> Some s | _ \<Rightarrow> None)
        })"

text \<open>Lines 92 to 100: the text handed to \<open>JSON.parse\<close>.\<close>

definition extractJson :: "string \<Rightarrow> string" where
  "extractJson raw =
     (let jsonStr = js_trim raw;
          jsonStr = (case codeMatch jsonStr of Some g \<Rightarrow> g | None \<Rightarrow> jsonStr);
          start = indexOf jsonStr CHR ''{'';
          endIdx = lastIndexOf jsonStr CHR ''}''
      in if start \<noteq> -1 \<and> endIdx \<noteq> -1 then slice jsonStr start (endIdx + 1) else jsonStr)"

text \<open>Lines 103 to 109: the object built from the parsed value. None when a step throws.\<close>

definition normalizeFields :: "Runtime \<Rightarrow> jsval \<Rightarrow> FeedbackAnalysis option" where
  "normalizeFields rt parsed = do {
     c \<leftarrow> js_get parsed ''category'';
     cat \<leftarrow> js_String rt (js_or c (JStr ''Other''));
     s \<leftarrow> js_get parsed ''sentiment'';
     u \<leftarrow> js_get parsed ''urgency'';
     n \<leftarrow> js_Number rt u;
     t \<leftarrow> js_get parsed ''suggestedTeam'';
     k \<leftarrow> js_get parsed ''keywords'';
     Some \<lparr> analysis_category = cat,
            analysis_sentiment = js_or s (JStr ''Neutral''),
            analysis_urgency = Math_min (Fin 10) (Math_max (Fin 1) (num_or n (Fin 5))),
            analysis_suggestedTeam = js_or t (JStr ''product''),
            analysis_keywords = (case k of JArr xs \<Rightarrow> xs | _ \<Rightarrow> []) \<rparr>
   }"

text \<open>
  \<open>analyzeFeedback\<close>, given the outcome of \<open>env.AI.run\<close> (None when the call throws): the
  body of the \<open>try\<close> block, and the \<open>catch\<close> that replaces any exception by the default.
\<close>

definition analyzeTry :: "Runtime \<Rightarrow> jsval option \<Rightarrow> FeedbackAnalysis option" where
  "analyzeTry rt ai = do {
     response \<leftarrow> ai;
     raw \<leftarrow> rawResponse response;
     parsed \<leftarrow> JSON_parse rt (extractJson raw);
     normalizeFields rt parsed
   }"

definition analyzeResponse :: "Runtime \<Rightarrow> jsval option \<Rightarrow> FeedbackAnalysis" where
  "analyzeResponse rt ai = (case analyzeTry rt ai of Some a \<Rightarrow> a | None \<Rightarrow> defaultAnalysis)"

section \<open>Stores and bindings\<close>

text \<open>
  A row of the D1 table \<open>feedback\<close>, with the columns the worker writes and reads
  (\<open>created_at\<close> is filled by the database and never read by the modelled handlers). The
  columns \<open>sentiment\<close> and \<open>assigned_team\<close> hold whatever value was bound to them. \<open>row_notes\<close> is
  None for SQL \<open>NULL\<close>.
\<close>

record feedback_row =
  row_id :: int
  raw_text :: string
  category :: string
  sentiment :: jsval
  urgency_score :: real
  source :: string
  source_id :: string
  author :: string
  status :: string
  assigned_team :: jsval
  row_notes :: "string option"

text \<open>\<open>MockFeedbackItem\<close> of \<open>mock-data.ts\<close>.\<close>

record MockFeedbackItem =
  item_source :: string
  item_id :: string
  item_author :: string
  item_text :: string

text \<open>An entry of the Vectorize index, as \<open>indexFeedback\<close> writes it.\<close>

record vector_metadata =
  md_category :: string
  md_sentiment :: jsval
  md_urgency :: jsnum
  md_text :: string

record vector_entry =
  entry_id :: string
  entry_values :: "real list"
  entry_metadata :: vector_metadata

text \<open>A match returned by \<open>env.VECTORIZE.query\<close>, and the answer that holds the matches.\<close>

record VectorizeMatch =
  match_id :: string
  match_score :: real
  match_metadata :: "vector_metadata option"
  match_values :: "real list option"

record VectorizeMatches =
  matches :: "VectorizeMatch list option"
  count :: nat

record VectorSearchResult =
  result_id :: string
  result_score :: real
  result_metadata :: "vector_metadata option"

text \<open>The two stores the worker mutates: the table, in row order, and the vector index.\<close>

record world =
  feedback :: "feedback_row list"
  vectors :: "vector_entry list"

record slack_payload =
  payload_channel :: string
  payload_category :: string
  payload_team :: string
  payload_source :: string
  payload_author :: string
  payload_ticket :: int
  payload_text :: string

text \<open>
  The bindings of \<open>interface Env\<close> and \<open>fetch\<close>, as far as the worker observes them. A call
  that can throw returns an option, None for the exception.
  \<^item> \<open>AI_run_llama text\<close>: the answer of the chat model to the feedback text.
  \<^item> \<open>AI_run_bge text\<close>: \<open>response.data[0]\<close> of the embedding model.
  \<^item> \<open>VECTORIZE_upsert_ok e\<close>: whether the index takes the entry; the call throws otherwise.
  \<^item> \<open>VECTORIZE_query index v topK\<close>: the answer of the nearest-neighbour query.
  \<^item> \<open>DB_insert_ok rows r\<close>: whether D1 accepts the \<open>INSERT\<close> of \<open>r\<close> into a table holding
    \<open>rows\<close>. The schema of the table is not part of the sources, and D1 rejects bound values
    of some types; \<open>run()\<close> throws when the statement is rejected.
  \<^item> \<open>DB_round_avg xs\<close>: \<open>ROUND(AVG(x), 1)\<close> over a group whose column values are \<open>xs\<close>, as the
    engine computes it in double arithmetic.
  \<^item> \<open>fetch_post url payload\<close>: \<open>res.ok\<close> of the webhook call.
\<close>

record Env =
  AI_run_llama :: "string \<Rightarrow> jsval option"
  AI_run_bge :: "string \<Rightarrow> real list option"
  VECTORIZE_upsert_ok :: "vector_entry \<Rightarrow> bool"
  VECTORIZE_query :: "vector_entry list \<Rightarrow> real list \<Rightarrow> nat \<Rightarrow> VectorizeMatches option"
  DB_insert_ok :: "feedback_row list \<Rightarrow> feedback_row \<Rightarrow> bool"
  DB_round_avg :: "real list \<Rightarrow> real"
  SLACK_WEBHOOK_URL :: "string option"
  fetch_post :: "string \<Rightarrow> slack_payload \<Rightarrow> bool option"

text \<open>What a request handler gives back: a JSON response, or the exception it let escape.\<close>

datatype response =
    Success
  | SuccessProcessed nat
  | NotFound
  | Uncaught

definition analyzeFeedback :: "Runtime \<Rightarrow> Env \<Rightarrow> string \<Rightarrow> FeedbackAnalysis" where
  "analyzeFeedback rt env text = analyzeResponse rt (AI_run_llama env text)"

section \<open>Similarity index adapter\<close>

definition MIN_SIMILARITY_THRESHOLD :: real where
  "MIN_SIMILARITY_THRESHOLD = 0.5"

definition generateEmbedding :: "Env \<Rightarrow> string \<Rightarrow> real list option" where
  "generateEmbedding env text = AI_run_bge env text"

text \<open>\<open>String(id)\<close> for a row id.\<close>

fun digits :: "nat \<Rightarrow> string" where
  "digits n = (if n < 10 then [char_of (48 + n)] else digits (n div 10) @ [char_of (48 + n mod 10)])"

declare digits.simps [simp del]

definition String_of_int :: "int \<Rightarrow> string" where
  "String_of_int i = (if i < 0 then CHR ''-'' # digits (nat (- i)) else digits (nat i))"

definition upsert :: "vector_entry \<Rightarrow> vector_entry list \<Rightarrow> vector_entry list" where
  "upsert e es = e # filter (\<lambda>x. entry_id x \<noteq> entry_id e) es"

text \<open>\<open>indexFeedback\<close>: the \<open>try\<close> block gives the new index, the \<open>catch\<close> keeps the old one.\<close>

definition indexTry ::
  "Env \<Rightarrow> int \<Rightarrow> string \<Rightarrow> string \<Rightarrow> jsval \<Rightarrow> jsnum \<Rightarrow> vector_entry list \<Rightarrow> vector_entry list option"
where
  "indexTry env i text cat sent urg es = do {
     embedding \<leftarrow> generateEmbedding env text;
     let e = \<lparr> entry_id = String_of_int i, entry_values = embedding,
               entry_metadata = \<lparr> md_category = cat, md_sentiment = sent, md_urgency = urg,
                                  md_text = take 300 text \<rparr> \<rparr>;
     if VECTORIZE_upsert_ok env e then Some (upsert e es) else None
   }"

definition indexFeedback ::
  "Env \<Rightarrow> int \<Rightarrow> string \<Rightarrow> string \<Rightarrow> jsval \<Rightarrow> jsnum \<Rightarrow> world \<Rightarrow> world"
where
  "indexFeedback env i text cat sent urg w =
     (case indexTry env i text cat sent urg (vectors w) of
        Some es \<Rightarrow> w\<lparr>vectors := es\<rparr>
      | None \<Rightarrow> w)"

definition toResult :: "VectorizeMatch \<Rightarrow> VectorSearchResult" where
  "toResult m = \<lparr> result_id = match_id m, result_score = match_score m,
                  result_metadata = match_metadata m \<rparr>"

definition searchTry :: "Env \<Rightarrow> world \<Rightarrow> string \<Rightarrow> nat \<Rightarrow> VectorSearchResult list option" where
  "searchTry env w query topK = do {
     queryEmbedding \<leftarrow> generateEmbedding env query;
     results \<leftarrow> VECTORIZE_query env (vectors w) queryEmbedding topK;
     Some (map toResult
            (filter (\<lambda>m. match_score m \<ge> MIN_SIMILARITY_THRESHOLD)
               (case matches results of Some ms \<Rightarrow> ms | None \<Rightarrow> [])))
   }"

definition searchSimilarFeedback :: "Env \<Rightarrow> world \<Rightarrow> string \<Rightarrow> nat \<Rightarrow> VectorSearchResult list" where
  "searchSimilarFeedback env w query topK =
     (case searchTry env w query topK of Some filtered \<Rightarrow> filtered | None \<Rightarrow> [])"

section \<open>Mock data\<close>

definition discordFeedback :: "MockFeedbackItem list" where
  "discordFeedback =
     [
       \<lparr> item_source = ''discord'', item_id = ''d001'', item_author = ''user123'',
         item_text = ''App keeps crashing when I try to upload photos. Happens every time now.'' \<rparr>,
       \<lparr> item_source = ''discord'', item_id = ''d002'', item_author = ''gamer42'',
         item_text = ''Dark mode is great, finally I can use this at night'' \<rparr>,
       \<lparr> item_source = ''discord'', item_id = ''d003'', item_author = ''newbie'',
         item_text = ''How do I export my project? Cant find the button anywhere'' \<rparr>,
       \<lparr> item_source = ''discord'', item_id = ''d004'', item_author = ''poweruser'',
         item_text = ''The upload feature has been broken for 3 days now. Anyone else?'' \<rparr>,
       \<lparr> item_source = ''discord'', item_id = ''d005'', item_author = ''artist'',
         item_text = ''Upload keeps failing with large files. 50MB limit is too low'' \<rparr>,
       \<lparr> item_source = ''discord'', item_id = ''d006'', item_author = ''dev_mike'',
         item_text = ''API rate limits are way too aggressive. Getting 429s constantly'' \<rparr>,
       \<lparr> item_source = ''discord'', item_id = ''d007'', item_author = ''casual_user'',
         item_text = ''Love the new dashboard redesign!'' \<rparr>
     ]"

definition githubFeedback :: "MockFeedbackItem list" where
  "githubFeedback =
     [
       \<lparr> item_source = ''github'', item_id = ''g001'', item_author = ''dev-jane'',
         item_text = ''TypeError in ImageUpload component when handling PNG files larger than 10MB. Stack trace attached.'' \<rparr>,
       \<lparr> item_source = ''github'', item_id = ''g002'', item_author = ''security-bob'',
         item_text = ''XSS vulnerability in profile page via unsanitized user bio field. Needs immediate patching.'' \<rparr>,
       \<lparr> item_source = ''github'', item_id = ''g003'', item_author = ''a11y-expert'',
         item_text = ''Missing ARIA labels on main navigation. Screen readers cannot parse the menu structure.'' \<rparr>,
       \<lparr> item_source = ''github'', item_id = ''g004'', item_author = ''mobile-dev'',
         item_text = ''iOS app crashes on launch for users on iOS 15.x. Crash logs show memory allocation failure.'' \<rparr>,
       \<lparr> item_source = ''github'', item_id = ''g005'', item_author = ''contributor'',
         item_text = ''Feature request: Add webhook support for real-time notifications'' \<rparr>,
       \<lparr> item_source = ''github'', item_id = ''g006'', item_author = ''enterprise-user'',
         item_text = ''SSO integration broken after latest update. All our users locked out.'' \<rparr>
     ]"

definition twitterFeedback :: "MockFeedbackItem list" where
  "twitterFeedback =
     [
       \<lparr> item_source = ''twitter'', item_id = ''t001'', item_author = ''@techfan'',
         item_text = ''This app is painfully slow. Takes 10 seconds to load a simple page.'' \<rparr>,
       \<lparr> item_source = ''twitter'', item_id = ''t002'', item_author = ''@happyuser'',
         item_text = ''Best update yet! The new features are exactly what I needed'' \<rparr>,
       \<lparr> item_source = ''twitter'', item_id = ''t003'', item_author = ''@frustrated'',
         item_text = ''Lost all my work when the app crashed. No autosave? Its 2024!'' \<rparr>,
       \<lparr> item_source = ''twitter'', item_id = ''t004'', item_author = ''@devlife'',
         item_text = ''Memory usage is insane. 2GB RAM for a simple text editor?'' \<rparr>,
       \<lparr> item_source = ''twitter'', item_id = ''t005'', item_author = ''@designer'',
         item_text = ''The UI feels dated. Competitors have moved way ahead.'' \<rparr>,
       \<lparr> item_source = ''twitter'', item_id = ''t006'', item_author = ''@startup_ceo'',
         item_text = ''Our whole team relies on this tool. Please fix the sync issues!'' \<rparr>
     ]"

definition supportFeedback :: "MockFeedbackItem list" where
  "supportFeedback =
     [
       \<lparr> item_source = ''support'', item_id = ''s001'', item_author = ''enterprise_corp'',
         item_text = ''50 users unable to access platform. Dashboard shows subscription active but getting access denied. This is blocking our entire team.'' \<rparr>,
       \<lparr> item_source = ''support'', item_id = ''s002'', item_author = ''small_business'',
         item_text = ''Export functionality not working. Need to download our data for compliance audit due Friday.'' \<rparr>,
       \<lparr> item_source = ''support'', item_id = ''s003'', item_author = ''new_customer'',
         item_text = ''Pricing page is confusing. What exactly is included in the Pro plan? Limits are unclear.'' \<rparr>,
       \<lparr> item_source = ''support'', item_id = ''s004'', item_author = ''agency_client'',
         item_text = ''Billing charged twice this month. Need immediate refund and explanation.'' \<rparr>,
       \<lparr> item_source = ''support'', item_id = ''s005'', item_author = ''edu_institution'',
         item_text = ''Cannot add more than 100 users to our organization. Is this a bug or a limit?'' \<rparr>
     ]"

definition forumFeedback :: "MockFeedbackItem list" where
  "forumFeedback =
     [
       \<lparr> item_source = ''forum'', item_id = ''f001'', item_author = ''veteran_user'',
         item_text = ''Been using this for 2 years. The one feature thats always missing is proper mobile sync. Desktop changes dont appear on mobile for hours.'' \<rparr>,
       \<lparr> item_source = ''forum'', item_id = ''f002'', item_author = ''newcomer'',
         item_text = ''Onboarding is overwhelming. First screen has 15 options. Needs a guided tour for new users.'' \<rparr>,
       \<lparr> item_source = ''forum'', item_id = ''f003'', item_author = ''developer'',
         item_text = ''Would love to see a plugin API. Could build custom integrations for our workflow.'' \<rparr>,
       \<lparr> item_source = ''forum'', item_id = ''f004'', item_author = ''power_user'',
         item_text = ''Keyboard shortcuts are inconsistent. Ctrl+S saves in editor but not in settings.'' \<rparr>,
       \<lparr> item_source = ''forum'', item_id = ''f005'', item_author = ''team_lead'',
         item_text = ''Need better permission controls. Currently its all-or-nothing for team members.'' \<rparr>
     ]"

definition MOCK_FEEDBACK :: "MockFeedbackItem list" where
  "MOCK_FEEDBACK =
     discordFeedback @ githubFeedback @ twitterFeedback @ supportFeedback @ forumFeedback"

record team =
  team_id :: string
  team_name :: string
  slackChannel :: string

definition TEAMS :: "team list" where
  "TEAMS =
     [ \<lparr> team_id = ''engineering'', team_name = ''Engineering'', slackChannel = ''#eng-escalations'' \<rparr>,
       \<lparr> team_id = ''security'', team_name = ''Security'', slackChannel = ''#security-alerts'' \<rparr>,
       \<lparr> team_id = ''support'', team_name = ''Customer Support'', slackChannel = ''#support-escalations'' \<rparr>,
       \<lparr> team_id = ''product'', team_name = ''Product'', slackChannel = ''#product-feedback'' \<rparr>,
       \<lparr> team_id = ''billing'', team_name = ''Billing'', slackChannel = ''#billing-issues'' \<rparr> ]"

section \<open>Notification dispatcher\<close>

definition sendSlackNotification ::
  "Env \<Rightarrow> string \<Rightarrow> int \<Rightarrow> string \<Rightarrow> string \<Rightarrow> string \<Rightarrow> string \<Rightarrow> bool"
where
  "sendSlackNotification env teamId feedbackId feedbackText cat src auth =
     (case SLACK_WEBHOOK_URL env of
        None \<Rightarrow> False
      | Some url \<Rightarrow>
          if url = [] then False
          else (case find (\<lambda>t. team_id t = teamId) TEAMS of
                  None \<Rightarrow> False
                | Some team \<Rightarrow>
                    (case fetch_post env url
                            \<lparr> payload_channel = slackChannel team, payload_category = cat,
                              payload_team = team_name team, payload_source = src,
                              payload_author = auth, payload_ticket = feedbackId,
                              payload_text = take 500 feedbackText \<rparr> of
                       Some ok \<Rightarrow> ok
                     | None \<Rightarrow> False)))"

section \<open>Ingestion pipeline\<close>

text \<open>\<open>SELECT id FROM feedback WHERE source = ? AND source_id = ?\<close>, \<open>first()\<close>.\<close>

definition existing :: "world \<Rightarrow> MockFeedbackItem \<Rightarrow> feedback_row option" where
  "existing w item =
     find (\<lambda>r. source r = item_source item \<and> source_id r = item_id item) (feedback w)"

text \<open>The row id SQLite gives to a new row: one more than the largest in the table.\<close>

definition next_row_id :: "feedback_row list \<Rightarrow> int" where
  "next_row_id rows = fold max (map row_id rows) 0 + 1"

text \<open>
  The values bound to the \<open>INSERT\<close>. The column \<open>urgency_score\<close> is modelled for finite
  numbers; for an urgency that is not finite the model gives no row, a case that does not
  arise, since \<open>analyzeFeedback\<close> returns finite urgencies only (lemma
  \<open>analyzeFeedback_urgency_finite\<close>, and \<open>boundRow_analyzeFeedback\<close>).
\<close>

definition boundRow :: "MockFeedbackItem \<Rightarrow> FeedbackAnalysis \<Rightarrow> feedback_row option" where
  "boundRow item analysis =
     (case analysis_urgency analysis of
        Fin u \<Rightarrow>
          Some \<lparr> row_id = 0, raw_text = item_text item, category = analysis_category analysis,
                 sentiment = analysis_sentiment analysis, urgency_score = u,
                 source = item_source item, source_id = item_id item,
                 author = item_author item, status = ''new'',
                 assigned_team = analysis_suggestedTeam analysis, row_notes = None \<rparr>
      | _ \<Rightarrow> None)"

text \<open>\<open>run()\<close> of the \<open>INSERT\<close>: \<open>meta.last_row_id\<close> and the new table, or None when it throws.\<close>

definition DB_insert :: "Env \<Rightarrow> feedback_row \<Rightarrow> world \<Rightarrow> (int \<times> world) option" where
  "DB_insert env r w =
     (let r' = r\<lparr>row_id := next_row_id (feedback w)\<rparr>
      in if DB_insert_ok env (feedback w) r'
         then Some (row_id r', w\<lparr>feedback := feedback w @ [r']\<rparr>)
         else None)"

text \<open>
  The loop of \<open>POST /ingest\<close> over the items, with the counter \<open>processed\<close>. Nothing in the
  handler catches what \<open>run()\<close> throws, so a rejected \<open>INSERT\<close> ends the request; the rows
  written before it stay.
\<close>

fun ingest_loop ::
  "Runtime \<Rightarrow> Env \<Rightarrow> MockFeedbackItem list \<Rightarrow> nat \<Rightarrow> world \<Rightarrow> response \<times> world"
where
  "ingest_loop rt env [] processed w = (SuccessProcessed processed, w)"
| "ingest_loop rt env (item # rest) processed w =
     (if existing w item \<noteq> None then ingest_loop rt env rest processed w
      else
        (let analysis = analyzeFeedback rt env (item_text item)
         in case Option.bind (boundRow item analysis) (\<lambda>r. DB_insert env r w) of
              None \<Rightarrow> (Uncaught, w)
            | Some (last_row_id, w1) \<Rightarrow>
                ingest_loop rt env rest (processed + 1)
                  (if last_row_id \<noteq> 0
                   then indexFeedback env last_row_id (item_text item)
                          (analysis_category analysis) (analysis_sentiment analysis)
                          (analysis_urgency analysis) w1
                   else w1)))"

definition ingest :: "Runtime \<Rightarrow> Env \<Rightarrow> world \<Rightarrow> response \<times> world" where
  "ingest rt env w = ingest_loop rt env MOCK_FEEDBACK 0 w"

section \<open>Triage state machine\<close>

text \<open>An \<open>UPDATE feedback SET ... WHERE\<close>: the rows that satisfy the condition are rewritten.\<close>

definition DB_update ::
  "(feedback_row \<Rightarrow> bool) \<Rightarrow> (feedback_row \<Rightarrow> feedback_row) \<Rightarrow> world \<Rightarrow> world"
where
  "DB_update cond f w = w\<lparr>feedback := map (\<lambda>r. if cond r then f r else r) (feedback w)\<rparr>"

text \<open>\<open>body.notes || null\<close>, for \<open>notes?: string\<close>.\<close>

definition notes_or_null :: "string option \<Rightarrow> string option" where
  "notes_or_null n = (case n of None \<Rightarrow> None | Some s \<Rightarrow> if s = [] then None else Some s)"

text \<open>
  \<open>POST /escalate/:id\<close>, with the id that \<open>parseInt\<close> read from the path and the fields of
  the request body.
\<close>

definition escalate :: "Env \<Rightarrow> int \<Rightarrow> string \<Rightarrow> string option \<Rightarrow> world \<Rightarrow> response \<times> world" where
  "escalate env i team body_notes w =
     (case find (\<lambda>r. row_id r = i) (feedback w) of
        None \<Rightarrow> (NotFound, w)
      | Some fb \<Rightarrow>
          (let w1 = DB_update (\<lambda>r. row_id r = i)
                      (\<lambda>r. r\<lparr>status := ''escalated'', assigned_team := JStr team,
                             urgency_score := 10, row_notes := notes_or_null body_notes\<rparr>) w;
               sent = sendSlackNotification env team i (raw_text fb) (category fb)
                        (source fb) (author fb)
           in (Success, w1)))"

text \<open>
  \<open>POST /action/:id\<close>. \<open>updates\<close> gives the status that the statement stored under an
  action name writes, for the own keys of the object. For a name that the object inherits
  from \<open>Object.prototype\<close> the lookup \<open>updates[action]\<close> gives a function or an object,
  which is truthy and no statement text: \<open>prepare\<close> is called with it and the request
  throws. The id is the integer that SQLite compares with the column.
\<close>

definition updates :: "string \<Rightarrow> string option" where
  "updates a =
     (if a = ''acknowledge'' then Some ''acknowledged''
      else if a = ''resolve'' then Some ''resolved''
      else if a = ''reopen'' then Some ''new''
      else None)"

definition inherited_keys :: "string list" where
  "inherited_keys =
     [ ''constructor'', ''__defineGetter__'', ''__defineSetter__'', ''hasOwnProperty'',
       ''__lookupGetter__'', ''__lookupSetter__'', ''isPrototypeOf'', ''propertyIsEnumerable'',
       ''toString'', ''valueOf'', ''__proto__'', ''toLocaleString'' ]"

definition action :: "int \<Rightarrow> string \<Rightarrow> string \<Rightarrow> world \<Rightarrow> response \<times> world" where
  "action i act body_notes w =
     (case updates act of
        Some st \<Rightarrow> (Success, DB_update (\<lambda>r. row_id r = i) (\<lambda>r. r\<lparr>status := st\<rparr>) w)
      | None \<Rightarrow>
          if act \<in> set inherited_keys then (Uncaught, w)
          else if act = ''add_note''
          then (Success, DB_update (\<lambda>r. row_id r = i) (\<lambda>r. r\<lparr>row_notes := Some body_notes\<rparr>) w)
          else (Success, w))"

text \<open>\<open>POST /bulk\<close>.\<close>

definition bulk :: "string \<Rightarrow> string \<Rightarrow> world \<Rightarrow> response \<times> world" where
  "bulk act cat w =
     (if act = ''acknowledge''
      then (Success, DB_update (\<lambda>r. category r = cat \<and> status r = ''new'')
                       (\<lambda>r. r\<lparr>status := ''acknowledged''\<rparr>) w)
      else if act = ''resolve''
      then (Success, DB_update (\<lambda>r. category r = cat) (\<lambda>r. r\<lparr>status := ''resolved''\<rparr>) w)
      else (Success, w))"

text \<open>The operations of the triage workflow, as the dashboard issues them.\<close>

definition acknowledge :: "int \<Rightarrow> world \<Rightarrow> response \<times> world" where
  "acknowledge i w = action i ''acknowledge'' [] w"

definition resolve :: "int \<Rightarrow> world \<Rightarrow> response \<times> world" where
  "resolve i w = action i ''resolve'' [] w"

definition reopen :: "int \<Rightarrow> world \<Rightarrow> response \<times> world" where
  "reopen i w = action i ''reopen'' [] w"

definition addNote :: "int \<Rightarrow> string \<Rightarrow> world \<Rightarrow> response \<times> world" where
  "addNote i text w = action i ''add_note'' text w"

definition bulkAcknowledge :: "string \<Rightarrow> world \<Rightarrow> response \<times> world" where
  "bulkAcknowledge cat w = bulk ''acknowledge'' cat w"

definition bulkResolve :: "string \<Rightarrow> world \<Rightarrow> response \<times> world" where
  "bulkResolve cat w = bulk ''resolve'' cat w"

section \<open>Aggregation engine\<close>

text \<open>
  The query of \<open>getAggregatedInsights\<close> is evaluated over the rows of the table. The
  arithmetic of \<open>ROUND(AVG(urgency_score), 1)\<close> is the engine's, on doubles, and enters as
  the binding \<open>DB_round_avg\<close>. SQL leaves open the order of rows that tie in every key of
  \<open>ORDER BY\<close> and the order inside \<open>GROUP_CONCAT\<close>; the model takes the order that SQLite
  produces: the groups of \<open>GROUP BY category\<close> come in ascending order of the category
  (collation \<open>BINARY\<close>), the sort keeps the order of rows that tie, and the sources of a
  group are listed in the order of their first rows.
\<close>

text \<open>\<open>COUNT(CASE WHEN c THEN 1 END)\<close>\<close>

definition count_when :: "('a \<Rightarrow> bool) \<Rightarrow> 'a list \<Rightarrow> nat" where
  "count_when c rows = length (filter c rows)"

text \<open>\<open>GROUP_CONCAT\<close>, with the separator \<open>,\<close>, and \<open>split(',')\<close>.\<close>

fun group_concat :: "string list \<Rightarrow> string" where
  "group_concat [] = []"
| "group_concat [x] = x"
| "group_concat (x # y # ys) = x @ CHR '','' # group_concat (y # ys)"

fun split_comma :: "string \<Rightarrow> string list" where
  "split_comma [] = [[]]"
| "split_comma (c # cs) =
     (if c = CHR '','' then [] # split_comma cs
      else (case split_comma cs of [] \<Rightarrow> [[c]] | x # xs \<Rightarrow> (c # x) # xs))"

text \<open>The distinct elements of a list, each at its first occurrence.\<close>

definition first_occurrences :: "'a list \<Rightarrow> 'a list" where
  "first_occurrences xs = rev (remdups (rev xs))"





text \<open>A row of the query's result.\<close>

record insight_row =
  q_category :: string
  q_total :: nat
  q_new_count :: nat
  q_avg_urgency :: real
  q_positive :: nat
  q_negative :: nat
  q_neutral :: nat
  q_sources :: string

text \<open>The result row of one group of \<open>GROUP BY category\<close>.\<close>

definition groupRow :: "Env \<Rightarrow> feedback_row list \<Rightarrow> string \<Rightarrow> insight_row" where
  "groupRow env rows c =
     (let g = filter (\<lambda>r. category r = c) rows
      in \<lparr> q_category = c,
           q_total = length g,
           q_new_count = count_when (\<lambda>r. status r = ''new'') g,
           q_avg_urgency = DB_round_avg env (map urgency_score g),
           q_positive = count_when (\<lambda>r. sentiment r = JStr ''Positive'') g,
           q_negative = count_when (\<lambda>r. sentiment r = JStr ''Negative'') g,
           q_neutral = count_when (\<lambda>r. sentiment r = JStr ''Neutral'') g,
           q_sources = group_concat (first_occurrences (map source g)) \<rparr>)"




record sentiment_counts =
  positive :: nat
  negative :: nat
  neutral :: nat

record AggregatedInsight =
  insight_category :: string
  total_count :: nat
  newCount :: nat
  avgUrgency :: real
  sentimentBreakdown :: sentiment_counts
  topSources :: "string list"

text \<open>The \<open>map\<close> over \<open>results.results\<close>; \<open>x || 0\<close> is written out.\<close>

definition toInsight :: "insight_row \<Rightarrow> AggregatedInsight" where
  "toInsight r =
     \<lparr> insight_category = q_category r,
       total_count = q_total r,
       newCount = q_new_count r,
       avgUrgency = (if q_avg_urgency r \<noteq> 0 then q_avg_urgency r else 0),
       sentimentBreakdown =
         \<lparr> positive = (if q_positive r \<noteq> 0 then q_positive r else 0),
           negative = (if q_negative r \<noteq> 0 then q_negative r else 0),
           neutral = (if q_neutral r \<noteq> 0 then q_neutral r else 0) \<rparr>,
       topSources = (if q_sources r \<noteq> [] then split_comma (q_sources r) else []) \<rparr>"


section \<open>Reference notions and example inputs\<close>

text \<open>Clamping into the interval from 1 to 10, as the specification words it.\<close>

definition clamp_1_10 :: "real \<Rightarrow> real" where
  "clamp_1_10 x = min 10 (max 1 x)"

text \<open>A run time that answers as JavaScript does on the texts used in the examples.\<close>

definition rt_example :: Runtime where
  \<open>rt_example =
     \<lparr> JSON_parse = (\<lambda>s.
         if s = ''{"urgency":0}'' then Some (JObj [(''urgency'', JNum (Fin 0))])
         else if s = ''{"urgency":42}'' then Some (JObj [(''urgency'', JNum (Fin 42))])
         else if s = ''{"sentiment":"Mixed"}'' then Some (JObj [(''sentiment'', JStr ''Mixed'')])
         else if s = ''{"sentiment":{"label":"Negative"}}''
           then Some (JObj [(''sentiment'', JObj [(''label'', JStr ''Negative'')])])
         else None),
       StringToNumber = (\<lambda>s. if s = ''7'' then Fin 7 else NaN),
       NumberToString = (\<lambda>n. if n = Fin 7 then ''7'' else ''NaN''),
       ObjectToString = (\<lambda>v. Some ''[object Object]'') \<rparr>\<close>

text \<open>
  Bindings whose classifier is the given function; embeddings succeed, the index and the
  table take every write, no webhook is configured. \<open>DB_round_avg\<close> answers as SQLite
  does on the groups of the example tables, whose scores are one whole number repeated:
  their rounded mean is that number. \<open>env_answering v\<close> answers every
  text with \<open>v\<close>; the classifier of \<open>env_silent\<close> throws on every call.
\<close>

definition env_example :: "(string \<Rightarrow> jsval option) \<Rightarrow> Env" where
  "env_example ai =
     \<lparr> AI_run_llama = ai, AI_run_bge = (\<lambda>t. Some [1, 0]),
       VECTORIZE_upsert_ok = (\<lambda>e. True), VECTORIZE_query = (\<lambda>es v k. None),
       DB_insert_ok = (\<lambda>rows r. True),
       DB_round_avg = (\<lambda>xs. case xs of [] \<Rightarrow> 0
                            | x # ys \<Rightarrow> if list_all (\<lambda>y. y = x) ys then x else 0),
       SLACK_WEBHOOK_URL = None,
       fetch_post = (\<lambda>u p. None) \<rparr>"

definition env_answering :: "jsval \<Rightarrow> Env" where
  "env_answering v = env_example (\<lambda>t. Some v)"

definition env_silent :: Env where
  "env_silent = env_example (\<lambda>t. None)"

text \<open>Three classifier answers.\<close>

definition answer_urgency_0 :: jsval where
  \<open>answer_urgency_0 = JStr ''{"urgency":0}''\<close>

definition answer_urgency_42 :: jsval where
  \<open>answer_urgency_42 = JObj [(''response'', JStr ''Sure! ```json {"urgency":42} ``` '')]\<close>

definition answer_sentiment_mixed :: jsval where
  \<open>answer_sentiment_mixed = JStr ''{"sentiment":"Mixed"}''\<close>

text \<open>A table with three rows, and an empty index.\<close>

definition row_example ::
  "int \<Rightarrow> string \<Rightarrow> string \<Rightarrow> string \<Rightarrow> real \<Rightarrow> string option \<Rightarrow> feedback_row"
where
  "row_example i sid cat st urg n =
     \<lparr> row_id = i, raw_text = ''App crashes on upload'', category = cat,
       sentiment = JStr ''Negative'', urgency_score = urg, source = ''discord'',
       source_id = sid, author = ''user123'', status = st,
       assigned_team = JStr ''product'', row_notes = n \<rparr>"

definition world_example :: world where
  "world_example =
     \<lparr> feedback =
         [ row_example 1 ''d001'' ''Bug'' ''new'' 3 (Some ''seen by PM''),
           row_example 2 ''d004'' ''Bug'' ''escalated'' 10 None,
           row_example 3 ''d003'' ''UX'' ''new'' 4 None ],
       vectors = [] \<rparr>"

text \<open>Two items of a batch, the empty stores, and bindings whose services all fail.\<close>

definition item_a :: MockFeedbackItem where
  "item_a = \<lparr> item_source = ''discord'', item_id = ''d001'', item_author = ''user123'',
              item_text = ''App crashes on upload'' \<rparr>"

definition item_b :: MockFeedbackItem where
  "item_b = \<lparr> item_source = ''github'', item_id = ''g002'', item_author = ''security-bob'',
              item_text = ''XSS vulnerability in profile page'' \<rparr>"

definition world_empty :: world where
  "world_empty = \<lparr> feedback = [], vectors = [] \<rparr>"

definition env_down :: Env where
  "env_down = env_silent\<lparr> AI_run_bge := (\<lambda>t. None) \<rparr>"

text \<open>The stores after the two items were ingested with every service failing.\<close>

definition world_two :: world where
  "world_two =
     \<lparr> feedback =
         [ \<lparr> row_id = 1, raw_text = ''App crashes on upload'', category = ''Other'',
             sentiment = JStr ''Neutral'', urgency_score = 5, source = ''discord'',
             source_id = ''d001'', author = ''user123'', status = ''new'',
             assigned_team = JStr ''product'', row_notes = None \<rparr>,
           \<lparr> row_id = 2, raw_text = ''XSS vulnerability in profile page'', category = ''Other'',
             sentiment = JStr ''Neutral'', urgency_score = 5, source = ''github'',
             source_id = ''g002'', author = ''security-bob'', status = ''new'',
             assigned_team = JStr ''product'', row_notes = None \<rparr> ],
       vectors = [] \<rparr>"





text \<open>An answer of the vector store with three matches.\<close>

definition match_example :: "string \<Rightarrow> real \<Rightarrow> VectorizeMatch" where
  "match_example i s =
     \<lparr> match_id = i, match_score = s, match_metadata = None, match_values = None \<rparr>"

definition env_search :: Env where
  "env_search =
     env_silent
       \<lparr> VECTORIZE_query := (\<lambda>es v k.
            Some \<lparr> matches = Some [match_example ''1'' 0.8, match_example ''2'' 0.5,
                                    match_example ''3'' 0.49],
                   count = 3 \<rparr>) \<rparr>"


section \<open>Properties of the classification normalizer\<close>

lemmas example_defs =
  analyzeFeedback_def analyzeResponse_def analyzeTry_def rawResponse_def extractJson_def
  js_trim_def trim_end_def is_space_def codeMatch_def lastIndexOf_def slice_def
  normalizeFields_def js_or_def num_or_def Math_min_def Math_max_def
  rt_example_def env_example_def env_answering_def env_silent_def

lemma clamp_cases:
  "Math_min (Fin 10) (Math_max (Fin 1) (num_or n (Fin 5))) =
     (case n of NaN \<Rightarrow> Fin 5 | NegInf \<Rightarrow> Fin 1 | PosInf \<Rightarrow> Fin 10
      | Fin x \<Rightarrow> if x = 0 then Fin 5 else Fin (clamp_1_10 x))"
  by (cases n) (auto simp: Math_min_def Math_max_def num_or_def clamp_1_10_def)

lemma normalizeFields_urgency:
  assumes "normalizeFields rt parsed = Some a"
  shows "\<exists>u n. js_get parsed ''urgency'' = Some u \<and> js_Number rt u = Some n \<and>
           analysis_urgency a = Math_min (Fin 10) (Math_max (Fin 1) (num_or n (Fin 5)))"
  using assms by (auto simp: normalizeFields_def split: bind_splits)

lemma analyzeTry_Some_iff:
  "analyzeTry rt ai = Some a \<longleftrightarrow>
     (\<exists>response raw parsed. ai = Some response \<and> rawResponse response = Some raw \<and>
        JSON_parse rt (extractJson raw) = Some parsed \<and> normalizeFields rt parsed = Some a)"
  by (auto simp: analyzeTry_def split: bind_splits)

lemma analyzeResponse_urgency_range:
  "\<exists>r. analysis_urgency (analyzeResponse rt ai) = Fin r \<and> 1 \<le> r \<and> r \<le> 10"
proof (cases "analyzeTry rt ai")
  case None
  then show ?thesis by (simp add: analyzeResponse_def defaultAnalysis_def)
next
  case (Some a)
  then obtain parsed where "normalizeFields rt parsed = Some a"
    by (auto simp: analyzeTry_Some_iff)
  then obtain n where
    "analysis_urgency a = Math_min (Fin 10) (Math_max (Fin 1) (num_or n (Fin 5)))"
    using normalizeFields_urgency by blast
  then show ?thesis using Some
    by (cases n) (auto simp: analyzeResponse_def clamp_cases clamp_1_10_def)
qed

lemma analyzeFeedback_urgency_finite:
  "\<exists>u. analysis_urgency (analyzeFeedback rt env text) = Fin u"
  using analyzeResponse_urgency_range [of rt "AI_run_llama env text"]
  by (auto simp: analyzeFeedback_def)

text \<open>
  C3, as the code has it. Whatever the classifier answers, and also when the call or the
  parsing throws, the urgency of the result is a finite number between 1 and 10. When the
  answer parses and \<open>Number\<close> of its urgency field is \<open>n\<close>, the result is 5 for \<open>NaN\<close> (a
  field that is absent or does not parse as a number) and for zero, and \<open>n\<close> clamped into
  the interval from 1 to 10 for every other number. When a step throws, the result is 5.
\<close>

theorem urgency_clamped_or_default:
  "(\<exists>r. analysis_urgency (analyzeFeedback rt env text) = Fin r \<and> 1 \<le> r \<and> r \<le> 10) \<and>
   (\<forall>response raw parsed a u n.
      AI_run_llama env text = Some response \<longrightarrow> rawResponse response = Some raw \<longrightarrow>
      JSON_parse rt (extractJson raw) = Some parsed \<longrightarrow> normalizeFields rt parsed = Some a \<longrightarrow>
      js_get parsed ''urgency'' = Some u \<longrightarrow> js_Number rt u = Some n \<longrightarrow>
      analysis_urgency (analyzeFeedback rt env text) =
        (case n of NaN \<Rightarrow> Fin 5 | NegInf \<Rightarrow> Fin 1 | PosInf \<Rightarrow> Fin 10
         | Fin x \<Rightarrow> if x = 0 then Fin 5 else Fin (clamp_1_10 x))) \<and>
   (analyzeTry rt (AI_run_llama env text) = None \<longrightarrow>
      analysis_urgency (analyzeFeedback rt env text) = Fin 5)"
proof (intro conjI allI impI)
  show "\<exists>r. analysis_urgency (analyzeFeedback rt env text) = Fin r \<and> 1 \<le> r \<and> r \<le> 10"
    using analyzeResponse_urgency_range by (simp add: analyzeFeedback_def)
next
  fix response raw parsed a u n
  assume h: "AI_run_llama env text = Some response" "rawResponse response = Some raw"
    "JSON_parse rt (extractJson raw) = Some parsed" "normalizeFields rt parsed = Some a"
    "js_get parsed ''urgency'' = Some u" "js_Number rt u = Some n"
  have "analyzeFeedback rt env text = a"
    using h by (simp add: analyzeFeedback_def analyzeResponse_def analyzeTry_def)
  moreover have
    "analysis_urgency a = Math_min (Fin 10) (Math_max (Fin 1) (num_or n (Fin 5)))"
    using normalizeFields_urgency [OF h(4)] h(5,6) by auto
  ultimately show "analysis_urgency (analyzeFeedback rt env text) =
        (case n of NaN \<Rightarrow> Fin 5 | NegInf \<Rightarrow> Fin 1 | PosInf \<Rightarrow> Fin 10
         | Fin x \<Rightarrow> if x = 0 then Fin 5 else Fin (clamp_1_10 x))"
    by (simp add: clamp_cases)
next
  assume "analyzeTry rt (AI_run_llama env text) = None"
  then show "analysis_urgency (analyzeFeedback rt env text) = Fin 5"
    by (simp add: analyzeFeedback_def analyzeResponse_def defaultAnalysis_def)
qed

theorem urgency_clamped_or_default_witness:
  \<open>AI_run_llama (env_answering answer_urgency_42) ''slow app'' = Some answer_urgency_42 \<and>
   rawResponse answer_urgency_42 = Some ''Sure! ```json {"urgency":42} ``` '' \<and>
   JSON_parse rt_example (extractJson ''Sure! ```json {"urgency":42} ``` '')
     = Some (JObj [(''urgency'', JNum (Fin 42))]) \<and>
   normalizeFields rt_example (JObj [(''urgency'', JNum (Fin 42))]) \<noteq> None \<and>
   js_get (JObj [(''urgency'', JNum (Fin 42))]) ''urgency'' = Some (JNum (Fin 42)) \<and>
   js_Number rt_example (JNum (Fin 42)) = Some (Fin 42) \<and>
   analysis_urgency (analyzeFeedback rt_example (env_answering answer_urgency_42) ''slow app'')
     = Fin 10 \<and>
   analyzeTry rt_example (AI_run_llama env_silent ''slow app'') = None \<and>
   analysis_urgency (analyzeFeedback rt_example env_silent ''slow app'') = Fin 5\<close>
proof -
  let ?env = "env_answering answer_urgency_42"
  let ?raw = \<open>''Sure! ```json {"urgency":42} ``` ''\<close>
  let ?parsed = "JObj [(''urgency'', JNum (Fin 42))]"
  have h1: "AI_run_llama ?env ''slow app'' = Some answer_urgency_42"
    by (simp add: env_example_def env_answering_def env_silent_def)
  have h2: "rawResponse answer_urgency_42 = Some ?raw"
    by (simp add: example_defs answer_urgency_42_def)
  have h3: "JSON_parse rt_example (extractJson ?raw) = Some ?parsed"
    by (simp add: example_defs)
  obtain a where h4: "normalizeFields rt_example ?parsed = Some a"
    by (simp add: example_defs)
  have h5: "js_get ?parsed ''urgency'' = Some (JNum (Fin 42))"
    by simp
  have h6: "js_Number rt_example (JNum (Fin 42)) = Some (Fin 42)"
    by simp
  have "analysis_urgency (analyzeFeedback rt_example ?env ''slow app'') = Fin (clamp_1_10 42)"
    using urgency_clamped_or_default [of rt_example ?env "''slow app''"] h1 h2 h3 h4 h5 h6
    by fastforce
  then have clamped: "analysis_urgency (analyzeFeedback rt_example ?env ''slow app'') = Fin 10"
    by (simp add: clamp_1_10_def)
  have thrown: "analyzeTry rt_example (AI_run_llama env_silent ''slow app'') = None"
    by (simp add: analyzeTry_def env_silent_def env_example_def)
  have "analysis_urgency (analyzeFeedback rt_example env_silent ''slow app'') = Fin 5"
    using urgency_clamped_or_default [of rt_example env_silent "''slow app''"] thrown
    by blast
  then show ?thesis using h1 h2 h3 h4 h5 h6 clamped thrown by simp
qed

text \<open>
  C3, as the specification words it, asks for the clamped value of every numeric urgency.
  For the answer \<open>{"urgency":0}\<close> the field is the number 0, whose clamped value is 1; the
  code takes 0 for a missing value and returns 5.
\<close>

theorem urgency_zero_counterexample:
  \<open>js_Number rt_example (JNum (Fin 0)) = Some (Fin 0) \<and>
   clamp_1_10 0 = 1 \<and>
   analysis_urgency (analyzeFeedback rt_example (env_answering answer_urgency_0) ''slow app'')
     = Fin 5 \<and>
   analysis_urgency (analyzeFeedback rt_example (env_answering answer_urgency_0) ''slow app'')
     \<noteq> Fin (clamp_1_10 0)\<close>
  by (simp add: example_defs answer_urgency_0_def clamp_1_10_def)

text \<open>
  C5 at the answer \<open>{"sentiment":"Mixed"}\<close>: the field is none of \<open>Positive\<close>, \<open>Negative\<close>,
  \<open>Neutral\<close>, and it is the sentiment of the result. Only a field that is absent or
  falsy is replaced by \<open>Neutral\<close>.
\<close>

theorem sentiment_mixed_kept:
  \<open>analysis_sentiment
     (analyzeFeedback rt_example (env_answering answer_sentiment_mixed) ''slow app'')
     = JStr ''Mixed''\<close>
  by (simp add: example_defs answer_sentiment_mixed_def)

section \<open>Properties of the triage state machine\<close>

lemma feedback_DB_update [simp]:
  "feedback (DB_update c f w) = map (\<lambda>r. if c r then f r else r) (feedback w)"
  by (simp add: DB_update_def)

lemma vectors_DB_update [simp]: "vectors (DB_update c f w) = vectors w"
  by (simp add: DB_update_def)

lemma DB_update_none:
  "\<forall>r \<in> set (feedback w). \<not> c r \<Longrightarrow> DB_update c f w = w"
  by (simp add: DB_update_def map_idI)

lemma find_None_iff_forall: "find P xs = None \<longleftrightarrow> (\<forall>x \<in> set xs. \<not> P x)"
  by (induction xs) auto

lemma escalate_missing:
  assumes "\<forall>r \<in> set (feedback w). row_id r \<noteq> i"
  shows "escalate env i team body_notes w = (NotFound, w)"
proof -
  have "find (\<lambda>r. row_id r = i) (feedback w) = None"
    using assms by (simp add: find_None_iff_forall)
  then show ?thesis by (simp add: escalate_def)
qed

lemma escalate_found:
  assumes "\<exists>r \<in> set (feedback w). row_id r = i"
  shows "escalate env i team body_notes w =
           (Success,
            DB_update (\<lambda>r. row_id r = i)
              (\<lambda>r. r\<lparr>status := ''escalated'', assigned_team := JStr team,
                     urgency_score := 10, row_notes := notes_or_null body_notes\<rparr>) w)"
proof -
  obtain fb where "find (\<lambda>r. row_id r = i) (feedback w) = Some fb"
    using assms
    by (cases "find (\<lambda>r. row_id r = i) (feedback w)") (auto simp: find_None_iff_forall)
  then show ?thesis by (simp add: escalate_def Let_def)
qed

lemmas world_example_defs = world_example_def row_example_def

text \<open>
  C2. When no row has the id, \<open>escalate\<close> answers 404 and both stores are as before. When
  a row has it, the answer is the success response, the table keeps its rows and their
  ids, every row with the id has status \<open>escalated\<close>, the given team and urgency 10,
  whatever it held before, and every other row is untouched.
\<close>

theorem escalate_effect:
  "((\<forall>r \<in> set (feedback w). row_id r \<noteq> i) \<longrightarrow>
      escalate env i team body_notes w = (NotFound, w)) \<and>
   ((\<exists>r \<in> set (feedback w). row_id r = i) \<longrightarrow>
      fst (escalate env i team body_notes w) = Success \<and>
      vectors (snd (escalate env i team body_notes w)) = vectors w \<and>
      length (feedback (snd (escalate env i team body_notes w))) = length (feedback w) \<and>
      (\<forall>k < length (feedback w).
         row_id (feedback (snd (escalate env i team body_notes w)) ! k)
           = row_id (feedback w ! k) \<and>
         (row_id (feedback w ! k) = i \<longrightarrow>
            status (feedback (snd (escalate env i team body_notes w)) ! k) = ''escalated'' \<and>
            assigned_team (feedback (snd (escalate env i team body_notes w)) ! k) = JStr team \<and>
            urgency_score (feedback (snd (escalate env i team body_notes w)) ! k) = 10) \<and>
         (row_id (feedback w ! k) \<noteq> i \<longrightarrow>
            feedback (snd (escalate env i team body_notes w)) ! k = feedback w ! k)))"
proof (intro conjI impI)
  assume "\<forall>r \<in> set (feedback w). row_id r \<noteq> i"
  then show "escalate env i team body_notes w = (NotFound, w)"
    by (rule escalate_missing)
next
  assume found: "\<exists>r \<in> set (feedback w). row_id r = i"
  let ?w = "snd (escalate env i team body_notes w)"
  note e = escalate_found [OF found, of env team body_notes]
  show "fst (escalate env i team body_notes w) = Success"
    by (simp add: e)
  show "vectors ?w = vectors w"
    by (simp add: e)
  show "length (feedback ?w) = length (feedback w)"
    by (simp add: e)
  show "\<forall>k < length (feedback w).
         row_id (feedback ?w ! k) = row_id (feedback w ! k) \<and>
         (row_id (feedback w ! k) = i \<longrightarrow>
            status (feedback ?w ! k) = ''escalated'' \<and>
            assigned_team (feedback ?w ! k) = JStr team \<and>
            urgency_score (feedback ?w ! k) = 10) \<and>
         (row_id (feedback w ! k) \<noteq> i \<longrightarrow> feedback ?w ! k = feedback w ! k)"
    by (simp add: e)
qed

theorem escalate_effect_witness:
  "7 \<notin> set (map row_id (feedback world_example)) \<and>
   escalate env_silent 7 ''engineering'' (Some ''urgent'') world_example
     = (NotFound, world_example) \<and>
   (\<exists>r \<in> set (feedback world_example). row_id r = 1) \<and>
   row_id (feedback world_example ! 0) = 1 \<and>
   status (feedback world_example ! 0) = ''new'' \<and>
   urgency_score (feedback world_example ! 0) = 3 \<and>
   status (feedback (snd (escalate env_silent 1 ''engineering''
             (Some ''urgent'') world_example)) ! 0) = ''escalated'' \<and>
   assigned_team (feedback (snd (escalate env_silent 1 ''engineering''
             (Some ''urgent'') world_example)) ! 0) = JStr ''engineering'' \<and>
   urgency_score (feedback (snd (escalate env_silent 1 ''engineering''
             (Some ''urgent'') world_example)) ! 0) = 10"
proof -
  let ?env = "env_silent"
  have missing: "\<forall>r \<in> set (feedback world_example). row_id r \<noteq> 7"
    by (simp add: world_example_defs)
  have found: "\<exists>r \<in> set (feedback world_example). row_id r = 1"
    by (simp add: world_example_defs)
  have first: "0 < length (feedback world_example)" "row_id (feedback world_example ! 0) = 1"
    "status (feedback world_example ! 0) = ''new''"
    "urgency_score (feedback world_example ! 0) = 3"
    by (simp_all add: world_example_defs)
  have a: "escalate ?env 7 ''engineering'' (Some ''urgent'') world_example
             = (NotFound, world_example)"
    using escalate_effect [of world_example 7 ?env "''engineering''" "Some ''urgent''"] missing
    by blast
  have b: "status (feedback (snd (escalate ?env 1 ''engineering'' (Some ''urgent'')
                     world_example)) ! 0) = ''escalated'' \<and>
           assigned_team (feedback (snd (escalate ?env 1 ''engineering'' (Some ''urgent'')
                     world_example)) ! 0) = JStr ''engineering'' \<and>
           urgency_score (feedback (snd (escalate ?env 1 ''engineering'' (Some ''urgent'')
                     world_example)) ! 0) = 10"
    using escalate_effect [of world_example 1 ?env "''engineering''" "Some ''urgent''"]
      found first(1,2)
    by blast
  have "7 \<notin> set (map row_id (feedback world_example))"
    using missing by auto
  then show ?thesis using found first a b by simp
qed

text \<open>
  C9, as the code has it. The statement of \<open>escalate\<close> always assigns \<open>notes\<close>, binding
  \<open>body.notes || null\<close>: on every row with the id, a call without notes (or with empty
  notes) stores \<open>NULL\<close>, and a call with notes that are not empty stores them.
\<close>

theorem escalate_notes:
  "(\<exists>r \<in> set (feedback w). row_id r = i) \<longrightarrow>
   (\<forall>k < length (feedback w). row_id (feedback w ! k) = i \<longrightarrow>
      (body_notes = None \<or> body_notes = Some [] \<longrightarrow>
         row_notes (feedback (snd (escalate env i team body_notes w)) ! k) = None) \<and>
      (\<forall>s. body_notes = Some s \<and> s \<noteq> [] \<longrightarrow>
         row_notes (feedback (snd (escalate env i team body_notes w)) ! k) = Some s))"
proof (intro impI)
  assume found: "\<exists>r \<in> set (feedback w). row_id r = i"
  note e = escalate_found [OF found, of env team body_notes]
  show "\<forall>k < length (feedback w). row_id (feedback w ! k) = i \<longrightarrow>
      (body_notes = None \<or> body_notes = Some [] \<longrightarrow>
         row_notes (feedback (snd (escalate env i team body_notes w)) ! k) = None) \<and>
      (\<forall>s. body_notes = Some s \<and> s \<noteq> [] \<longrightarrow>
         row_notes (feedback (snd (escalate env i team body_notes w)) ! k) = Some s)"
    unfolding e by (auto simp: notes_or_null_def)
qed

theorem escalate_notes_witness:
  "(\<exists>r \<in> set (feedback world_example). row_id r = 2) \<and>
   row_id (feedback world_example ! 1) = 2 \<and>
   row_notes (feedback (snd (escalate env_silent 2 ''security'' None
                world_example)) ! 1) = None \<and>
   row_notes (feedback (snd (escalate env_silent 2 ''security''
                (Some ''call the customer'') world_example)) ! 1) = Some ''call the customer'' \<and>
   row_notes (feedback (snd (escalate env_silent 2 ''security'' (Some [])
                world_example)) ! 1) = None"
proof -
  let ?env = "env_silent"
  have found: "\<exists>r \<in> set (feedback world_example). row_id r = 2"
    by (simp add: world_example_defs)
  have second: "1 < length (feedback world_example)" "row_id (feedback world_example ! 1) = 2"
    by (simp_all add: world_example_defs)
  have a: "row_notes (feedback (snd (escalate ?env 2 ''security'' None world_example)) ! 1)
             = None"
    using escalate_notes [of world_example 2 None ?env "''security''"] found second
    by blast
  have b: "row_notes (feedback (snd (escalate ?env 2 ''security'' (Some ''call the customer'')
             world_example)) ! 1) = Some ''call the customer''"
    using escalate_notes [of world_example 2 "Some ''call the customer''" ?env "''security''"]
      found second
    by fastforce
  have c: "row_notes (feedback (snd (escalate ?env 2 ''security'' (Some []) world_example)) ! 1)
             = None"
    using escalate_notes [of world_example 2 "Some []" ?env "''security''"] found second
    by blast
  show ?thesis using found second a b c by simp
qed

text \<open>
  C9, as the specification words it, says that a call without notes leaves the notes of
  the row as they were. The first row of the example holds a note; after \<open>escalate\<close>
  without notes it holds none.
\<close>

theorem escalate_clears_notes_counterexample:
  "row_id (feedback world_example ! 0) = 1 \<and>
   row_notes (feedback world_example ! 0) = Some ''seen by PM'' \<and>
   fst (escalate env_silent 1 ''engineering'' None world_example) = Success \<and>
   row_notes (feedback (snd (escalate env_silent 1 ''engineering'' None
                world_example)) ! 0) = None"
  by (simp add: world_example_defs escalate_def Let_def DB_update_def notes_or_null_def)

text \<open>
  C10. When no row has the id, \<open>acknowledge\<close>, \<open>resolve\<close>, \<open>reopen\<close> and \<open>addNote\<close> answer
  with the success response, not with 404, and leave both stores as they were.
\<close>

theorem action_unknown_id:
  "(\<forall>r \<in> set (feedback w). row_id r \<noteq> i) \<longrightarrow>
     acknowledge i w = (Success, w) \<and> resolve i w = (Success, w) \<and>
     reopen i w = (Success, w) \<and> addNote i text w = (Success, w)"
  by (simp add: acknowledge_def resolve_def reopen_def addNote_def action_def updates_def
      inherited_keys_def DB_update_none)

theorem action_unknown_id_witness:
  "7 \<notin> set (map row_id (feedback world_example)) \<and>
   acknowledge 7 world_example = (Success, world_example) \<and>
   resolve 7 world_example = (Success, world_example) \<and>
   reopen 7 world_example = (Success, world_example) \<and>
   addNote 7 ''ask for logs'' world_example = (Success, world_example)"
proof -
  have missing: "\<forall>r \<in> set (feedback world_example). row_id r \<noteq> 7"
    by (simp add: world_example_defs)
  have "7 \<notin> set (map row_id (feedback world_example))"
    using missing by auto
  then show ?thesis
    using action_unknown_id [of world_example 7 "''ask for logs''"] missing
    by blast
qed

text \<open>
  C7. \<open>bulkResolve c\<close> answers with the success response and rewrites the table row by
  row: a row of category \<open>c\<close> gets status \<open>resolved\<close>, whatever its status was, and every
  other row stays. \<open>bulkAcknowledge c\<close> gives status \<open>acknowledged\<close> to the rows of
  category \<open>c\<close> whose status is \<open>new\<close>, and every other row stays. Neither touches the index.
\<close>

theorem bulk_scope:
  "fst (bulkResolve c w) = Success \<and> fst (bulkAcknowledge c w) = Success \<and>
   vectors (snd (bulkResolve c w)) = vectors w \<and>
   vectors (snd (bulkAcknowledge c w)) = vectors w \<and>
   length (feedback (snd (bulkResolve c w))) = length (feedback w) \<and>
   length (feedback (snd (bulkAcknowledge c w))) = length (feedback w) \<and>
   (\<forall>k < length (feedback w).
      (category (feedback w ! k) = c \<longrightarrow>
         feedback (snd (bulkResolve c w)) ! k = (feedback w ! k)\<lparr>status := ''resolved''\<rparr>) \<and>
      (category (feedback w ! k) \<noteq> c \<longrightarrow>
         feedback (snd (bulkResolve c w)) ! k = feedback w ! k) \<and>
      (category (feedback w ! k) = c \<and> status (feedback w ! k) = ''new'' \<longrightarrow>
         feedback (snd (bulkAcknowledge c w)) ! k
           = (feedback w ! k)\<lparr>status := ''acknowledged''\<rparr>) \<and>
      (category (feedback w ! k) \<noteq> c \<or> status (feedback w ! k) \<noteq> ''new'' \<longrightarrow>
         feedback (snd (bulkAcknowledge c w)) ! k = feedback w ! k))"
  by (simp add: bulkResolve_def bulkAcknowledge_def bulk_def)

theorem bulk_scope_witness:
  "category (feedback world_example ! 1) = ''Bug'' \<and>
   status (feedback world_example ! 1) = ''escalated'' \<and>
   status (feedback (snd (bulkResolve ''Bug'' world_example)) ! 1) = ''resolved'' \<and>
   feedback (snd (bulkAcknowledge ''Bug'' world_example)) ! 1 = feedback world_example ! 1 \<and>
   category (feedback world_example ! 0) = ''Bug'' \<and>
   status (feedback world_example ! 0) = ''new'' \<and>
   status (feedback (snd (bulkResolve ''Bug'' world_example)) ! 0) = ''resolved'' \<and>
   status (feedback (snd (bulkAcknowledge ''Bug'' world_example)) ! 0) = ''acknowledged'' \<and>
   category (feedback world_example ! 2) = ''UX'' \<and>
   feedback (snd (bulkResolve ''Bug'' world_example)) ! 2 = feedback world_example ! 2 \<and>
   feedback (snd (bulkAcknowledge ''Bug'' world_example)) ! 2 = feedback world_example ! 2"
proof -
  have rows: "length (feedback world_example) = 3"
    "category (feedback world_example ! 0) = ''Bug''" "status (feedback world_example ! 0) = ''new''"
    "category (feedback world_example ! 1) = ''Bug''"
    "status (feedback world_example ! 1) = ''escalated''"
    "category (feedback world_example ! 2) = ''UX''"
    by (simp_all add: world_example_defs)
  note b = bulk_scope [of "''Bug''" world_example]
  have k0: "feedback (snd (bulkResolve ''Bug'' world_example)) ! 0
              = (feedback world_example ! 0)\<lparr>status := ''resolved''\<rparr> \<and>
            feedback (snd (bulkAcknowledge ''Bug'' world_example)) ! 0
              = (feedback world_example ! 0)\<lparr>status := ''acknowledged''\<rparr>"
    using b rows by simp
  have k1: "feedback (snd (bulkResolve ''Bug'' world_example)) ! 1
              = (feedback world_example ! 1)\<lparr>status := ''resolved''\<rparr> \<and>
            feedback (snd (bulkAcknowledge ''Bug'' world_example)) ! 1
              = feedback world_example ! 1"
    using b rows by simp
  have k2: "feedback (snd (bulkResolve ''Bug'' world_example)) ! 2 = feedback world_example ! 2 \<and>
            feedback (snd (bulkAcknowledge ''Bug'' world_example)) ! 2
              = feedback world_example ! 2"
    using b rows by simp
  show ?thesis using rows k0 k1 k2 by simp
qed

section \<open>Properties of the ingestion pipeline\<close>

declare ingest_loop.simps [simp del]

lemma feedback_indexFeedback [simp]:
  "feedback (indexFeedback env i text cat sent urg w) = feedback w"
  by (simp add: indexFeedback_def split: option.splits)

lemma existing_indexFeedback [simp]:
  "existing (indexFeedback env i text cat sent urg w) item = existing w item"
  by (simp add: existing_def)

lemma DB_insert_Some:
  assumes "DB_insert env r w = Some (i, w1)"
  shows "feedback w1 = feedback w @ [r\<lparr>row_id := i\<rparr>] \<and> vectors w1 = vectors w \<and>
         i = next_row_id (feedback w)"
  using assms by (auto simp: DB_insert_def Let_def split: if_splits)


lemma boundRow_Some:
  assumes "boundRow item analysis = Some r"
  shows "source r = item_source item \<and> source_id r = item_id item \<and> status r = ''new''"
  using assms by (auto simp: boundRow_def split: jsnum.splits)

lemma boundRow_analyzeFeedback:
  "\<exists>r. boundRow item (analyzeFeedback rt env text) = Some r"
proof -
  obtain u where "analysis_urgency (analyzeFeedback rt env text) = Fin u"
    using analyzeFeedback_urgency_finite by blast
  then show ?thesis by (simp add: boundRow_def)
qed

lemma find_append_Some:
  "find P xs \<noteq> None \<Longrightarrow> find P (xs @ ys) \<noteq> None"
  by (induction xs) auto

lemma existing_mono:
  assumes "existing w item \<noteq> None" "feedback w' = feedback w @ new"
  shows "existing w' item \<noteq> None"
  using assms by (simp add: existing_def find_append_Some)

text \<open>
  One turn of the loop: the item is skipped, or its \<open>INSERT\<close> is rejected and the request
  ends, or a row is appended and the loop goes on with the counter raised.
\<close>

lemma ingest_loop_turn:
  fixes rt env item rest p w
  defines "a \<equiv> analyzeFeedback rt env (item_text item)"
  obtains
    (skip) "existing w item \<noteq> None"
      "ingest_loop rt env (item # rest) p w = ingest_loop rt env rest p w"
  | (reject) r where "existing w item = None" "boundRow item a = Some r"
      "DB_insert env r w = None" "ingest_loop rt env (item # rest) p w = (Uncaught, w)"
  | (insert) r i w2 where "existing w item = None" "boundRow item a = Some r"
      "feedback w2 = feedback w @ [r\<lparr>row_id := i\<rparr>]"
      "DB_insert_ok env (feedback w) (r\<lparr>row_id := i\<rparr>)"
      "existing w2 item \<noteq> None"
      "ingest_loop rt env (item # rest) p w = ingest_loop rt env rest (p + 1) w2"
proof (cases "existing w item \<noteq> None")
  case True
  then show ?thesis using skip by (simp add: ingest_loop.simps)
next
  case False
  obtain r where r: "boundRow item a = Some r"
    unfolding a_def using boundRow_analyzeFeedback by blast
  show ?thesis
  proof (cases "DB_insert env r w")
    case None
    then show ?thesis using reject [of r] False r by (simp add: a_def Let_def ingest_loop.simps)
  next
    case (Some iw)
    obtain i w1 where iw: "DB_insert env r w = Some (i, w1)"
      using Some by (cases iw) simp
    let ?w2 = "if i \<noteq> 0
               then indexFeedback env i (item_text item) (analysis_category a)
                      (analysis_sentiment a) (analysis_urgency a) w1
               else w1"
    have f: "feedback ?w2 = feedback w @ [r\<lparr>row_id := i\<rparr>]"
      using DB_insert_Some [OF iw] by simp
    have ok: "DB_insert_ok env (feedback w) (r\<lparr>row_id := i\<rparr>)"
      using iw by (auto simp: DB_insert_def Let_def split: if_splits)
    have "source (r\<lparr>row_id := i\<rparr>) = item_source item \<and>
          source_id (r\<lparr>row_id := i\<rparr>) = item_id item"
      using boundRow_Some [OF r] by simp
    then have e: "existing ?w2 item \<noteq> None"
      unfolding existing_def f by (auto simp: find_None_iff_forall)
    have "ingest_loop rt env (item # rest) p w = ingest_loop rt env rest (p + 1) ?w2"
      using False r iw by (simp add: a_def Let_def ingest_loop.simps)
    then show ?thesis using insert [of r ?w2 i] False r f ok e by blast
  qed
qed

lemma ingest_loop_all_existing:
  "\<forall>item \<in> set items. existing w item \<noteq> None \<Longrightarrow>
     ingest_loop rt env items processed w = (SuccessProcessed processed, w)"
  by (induction items) (auto simp: ingest_loop.simps)

text \<open>Rows are only appended, and the counter counts the appended rows.\<close>

lemma ingest_loop_grows:
  "ingest_loop rt env items p w = (resp, w') \<Longrightarrow>
     \<exists>new. feedback w' = feedback w @ new \<and>
       (resp = Uncaught \<or> resp = SuccessProcessed (p + length new))"
proof (induction items arbitrary: p w)
  case Nil
  then show ?case by (auto simp: ingest_loop.simps)
next
  case (Cons item rest)
  show ?case
  proof (cases rule: ingest_loop_turn [of w item rt env rest p])
    case skip
    then show ?thesis using Cons by simp
  next
    case (reject r)
    then show ?thesis using Cons.prems by auto
  next
    case (insert r i w2)
    then have "ingest_loop rt env rest (p + 1) w2 = (resp, w')"
      using Cons.prems by simp
    from Cons.IH [OF this] obtain new where
      "feedback w' = feedback w2 @ new"
      "resp = Uncaught \<or> resp = SuccessProcessed (p + 1 + length new)"
      by blast
    then have "feedback w' = feedback w @ (r\<lparr>row_id := i\<rparr> # new) \<and>
        (resp = Uncaught \<or> resp = SuccessProcessed (p + length (r\<lparr>row_id := i\<rparr> # new)))"
      using insert(3) by simp
    then show ?thesis by blast
  qed
qed

text \<open>After a run that returns, every item of the batch has a row.\<close>

lemma ingest_loop_covers:
  "ingest_loop rt env items p w = (SuccessProcessed n, w') \<Longrightarrow>
     \<forall>item \<in> set items. existing w' item \<noteq> None"
proof (induction items arbitrary: p w)
  case Nil
  then show ?case by (simp add: ingest_loop.simps)
next
  case (Cons item rest)
  show ?case
  proof (cases rule: ingest_loop_turn [of w item rt env rest p])
    case skip
    then have run: "ingest_loop rt env rest p w = (SuccessProcessed n, w')"
      using Cons.prems by simp
    obtain new where "feedback w' = feedback w @ new"
      using ingest_loop_grows [OF run] by blast
    then have "existing w' item \<noteq> None"
      using skip(1) existing_mono by blast
    then show ?thesis using Cons.IH [OF run] by simp
  next
    case (reject r)
    then show ?thesis using Cons.prems by simp
  next
    case (insert r i w2)
    then have run: "ingest_loop rt env rest (p + 1) w2 = (SuccessProcessed n, w')"
      using Cons.prems by simp
    obtain new where "feedback w' = feedback w2 @ new"
      using ingest_loop_grows [OF run] by blast
    then have "existing w' item \<noteq> None"
      using insert(5) existing_mono by blast
    then show ?thesis using Cons.IH [OF run] by simp
  qed
qed




lemmas ingest_example_defs =
  env_down_def env_example_def env_answering_def env_silent_def item_a_def item_b_def world_empty_def world_two_def
  analyzeFeedback_def analyzeResponse_def analyzeTry_def defaultAnalysis_def
  existing_def boundRow_def DB_insert_def next_row_id_def indexFeedback_def indexTry_def
  generateEmbedding_def ingest_loop.simps


lemma ingest_example_run:
  "ingest_loop rt_example env_down [item_a, item_b] 0 world_empty
     = (SuccessProcessed 2, world_two)"
  by (simp add: ingest_example_defs)

text \<open>
  C1. An item whose pair of source and source id has a row is skipped: the loop goes on
  with the same stores and the same counter. A batch whose items all have rows returns
  the count 0 and changes nothing. So when a run over a batch has returned, a second run
  over the same batch, whatever the services answer then, returns the count 0 and leaves
  the stores as the first run left them; this holds for \<open>POST /ingest\<close> in particular.
\<close>

theorem ingest_dedup:
  "(existing w item \<noteq> None \<longrightarrow>
      ingest_loop rt env (item # rest) processed w = ingest_loop rt env rest processed w) \<and>
   ((\<forall>x \<in> set items. existing w x \<noteq> None) \<longrightarrow>
      ingest_loop rt env items 0 w = (SuccessProcessed 0, w)) \<and>
   (\<forall>n w'. ingest_loop rt env items 0 w = (SuccessProcessed n, w') \<longrightarrow>
      (\<forall>rt' env'. ingest_loop rt' env' items 0 w' = (SuccessProcessed 0, w'))) \<and>
   (\<forall>n w'. ingest rt env w = (SuccessProcessed n, w') \<longrightarrow>
      (\<forall>rt' env'. ingest rt' env' w' = (SuccessProcessed 0, w')))"
proof (intro conjI allI impI)
  assume "existing w item \<noteq> None"
  then show "ingest_loop rt env (item # rest) processed w
               = ingest_loop rt env rest processed w"
    by (simp add: ingest_loop.simps)
next
  assume "\<forall>x \<in> set items. existing w x \<noteq> None"
  then show "ingest_loop rt env items 0 w = (SuccessProcessed 0, w)"
    by (rule ingest_loop_all_existing)
next
  fix n w' rt' env'
  assume "ingest_loop rt env items 0 w = (SuccessProcessed n, w')"
  then have "\<forall>x \<in> set items. existing w' x \<noteq> None"
    by (rule ingest_loop_covers)
  then show "ingest_loop rt' env' items 0 w' = (SuccessProcessed 0, w')"
    by (rule ingest_loop_all_existing)
next
  fix n w' rt' env'
  assume "ingest rt env w = (SuccessProcessed n, w')"
  then have "\<forall>x \<in> set MOCK_FEEDBACK. existing w' x \<noteq> None"
    unfolding ingest_def by (rule ingest_loop_covers)
  then show "ingest rt' env' w' = (SuccessProcessed 0, w')"
    unfolding ingest_def by (rule ingest_loop_all_existing)
qed

theorem ingest_dedup_witness:
  "existing world_example item_a \<noteq> None \<and>
   ingest_loop rt_example env_down [item_a, item_b] 3 world_example
     = ingest_loop rt_example env_down [item_b] 3 world_example \<and>
   ingest_loop rt_example env_down [item_a] 0 world_example
     = (SuccessProcessed 0, world_example) \<and>
   ingest_loop rt_example env_down [item_a, item_b] 0 world_empty
     = (SuccessProcessed 2, world_two) \<and>
   ingest_loop rt_example (env_answering answer_urgency_42) [item_a, item_b] 0 world_two
     = (SuccessProcessed 0, world_two)"
proof -
  have here: "existing world_example item_a \<noteq> None"
    by (simp add: existing_def world_example_defs item_a_def)
  then have all: "\<forall>x \<in> set [item_a]. existing world_example x \<noteq> None"
    by simp
  note d = ingest_dedup [of world_example item_a rt_example env_down "[item_b]" 3 "[item_a]"]
  have a: "ingest_loop rt_example env_down [item_a, item_b] 3 world_example
             = ingest_loop rt_example env_down [item_b] 3 world_example"
    using d here by blast
  have b: "ingest_loop rt_example env_down [item_a] 0 world_example
             = (SuccessProcessed 0, world_example)"
    using d all by blast
  have c: "ingest_loop rt_example (env_answering answer_urgency_42)
             [item_a, item_b] 0 world_two = (SuccessProcessed 0, world_two)"
    using ingest_dedup [of world_empty item_a rt_example env_down "[]" 0 "[item_a, item_b]"]
      ingest_example_run
    by blast
  show ?thesis using here a b c ingest_example_run by simp
qed




section \<open>Properties of the similarity index adapter\<close>

lemma searchSimilarFeedback_answer:
  assumes "generateEmbedding env q = Some qe"
    "VECTORIZE_query env (vectors w) qe topK = Some results"
  shows "searchSimilarFeedback env w q topK =
           map toResult (filter (\<lambda>m. 1 / 2 \<le> match_score m)
             (case matches results of Some ms \<Rightarrow> ms | None \<Rightarrow> []))"
  using assms
  by (simp add: searchSimilarFeedback_def searchTry_def MIN_SIMILARITY_THRESHOLD_def)

text \<open>
  C6. When the vector store answers a query with the matches \<open>ms\<close>, the candidates
  returned are the matches of \<open>ms\<close> whose score is at least 0.5, in the order of the
  store, each with its id, score and metadata: a match with a score below 0.5 is not
  among them, and a match with the score 0.5 is. Every candidate returned has a score of
  at least 0.5, also when the store gives no matches or a call throws (no candidates).
\<close>

theorem searchSimilarFeedback_threshold:
  "(\<forall>qe results ms.
      generateEmbedding env q = Some qe \<longrightarrow>
      VECTORIZE_query env (vectors w) qe topK = Some results \<longrightarrow>
      matches results = Some ms \<longrightarrow>
        searchSimilarFeedback env w q topK
          = map toResult (filter (\<lambda>m. 1 / 2 \<le> match_score m) ms) \<and>
        set (searchSimilarFeedback env w q topK)
          = toResult ` {m \<in> set ms. 1 / 2 \<le> match_score m} \<and>
        (\<forall>m \<in> set ms. match_score m < 1 / 2 \<longrightarrow>
           toResult m \<notin> set (searchSimilarFeedback env w q topK)) \<and>
        (\<forall>m \<in> set ms. match_score m = 1 / 2 \<longrightarrow>
           toResult m \<in> set (searchSimilarFeedback env w q topK))) \<and>
   (\<forall>c \<in> set (searchSimilarFeedback env w q topK). 1 / 2 \<le> result_score c)"
proof (intro conjI allI impI)
  fix qe results ms
  assume h: "generateEmbedding env q = Some qe"
    "VECTORIZE_query env (vectors w) qe topK = Some results" "matches results = Some ms"
  have eq: "searchSimilarFeedback env w q topK
              = map toResult (filter (\<lambda>m. 1 / 2 \<le> match_score m) ms)"
    using searchSimilarFeedback_answer [OF h(1,2)] h(3) by simp
  show "searchSimilarFeedback env w q topK
          = map toResult (filter (\<lambda>m. 1 / 2 \<le> match_score m) ms)"
    by (rule eq)
  show "set (searchSimilarFeedback env w q topK)
          = toResult ` {m \<in> set ms. 1 / 2 \<le> match_score m}"
    unfolding eq by auto
  show "\<forall>m \<in> set ms. match_score m < 1 / 2 \<longrightarrow>
           toResult m \<notin> set (searchSimilarFeedback env w q topK)"
    unfolding eq by (auto simp: toResult_def)
  show "\<forall>m \<in> set ms. match_score m = 1 / 2 \<longrightarrow>
           toResult m \<in> set (searchSimilarFeedback env w q topK)"
    unfolding eq by auto
next
  show "\<forall>c \<in> set (searchSimilarFeedback env w q topK). 1 / 2 \<le> result_score c"
    by (auto simp: searchSimilarFeedback_def searchTry_def MIN_SIMILARITY_THRESHOLD_def
        toResult_def split: option.splits bind_splits)
qed

theorem searchSimilarFeedback_threshold_witness:
  "generateEmbedding env_search ''upload crash'' = Some [1, 0] \<and>
   VECTORIZE_query env_search (vectors world_two) [1, 0] 20
     = Some \<lparr> matches = Some [match_example ''1'' 0.8, match_example ''2'' 0.5,
                               match_example ''3'' 0.49],
              count = 3 \<rparr> \<and>
   searchSimilarFeedback env_search world_two ''upload crash'' 20
     = [toResult (match_example ''1'' 0.8), toResult (match_example ''2'' 0.5)] \<and>
   toResult (match_example ''3'' 0.49)
     \<notin> set (searchSimilarFeedback env_search world_two ''upload crash'' 20) \<and>
   match_score (match_example ''2'' 0.5) = 1 / 2 \<and>
   toResult (match_example ''2'' 0.5)
     \<in> set (searchSimilarFeedback env_search world_two ''upload crash'' 20)"
proof -
  let ?ms = "[match_example ''1'' 0.8, match_example ''2'' 0.5, match_example ''3'' 0.49]"
  have h1: "generateEmbedding env_search ''upload crash'' = Some [1, 0]"
    by (simp add: generateEmbedding_def env_search_def env_example_def env_answering_def env_silent_def)
  have h2: "VECTORIZE_query env_search (vectors world_two) [1, 0] 20
              = Some \<lparr> matches = Some ?ms, count = 3 \<rparr>"
    by (simp add: env_search_def env_example_def env_answering_def env_silent_def)
  have h3: "matches \<lparr> matches = Some ?ms, count = 3 \<rparr> = Some ?ms"
    by simp
  note t = searchSimilarFeedback_threshold [of env_search "''upload crash''" world_two 20]
  have a: "searchSimilarFeedback env_search world_two ''upload crash'' 20
             = map toResult (filter (\<lambda>m. 1 / 2 \<le> match_score m) ?ms)"
    using t h1 h2 h3 by blast
  have low: "match_example ''3'' 0.49 \<in> set ?ms" "match_score (match_example ''3'' 0.49) < 1 / 2"
    by (simp_all add: match_example_def)
  have b: "toResult (match_example ''3'' 0.49)
             \<notin> set (searchSimilarFeedback env_search world_two ''upload crash'' 20)"
    using t h1 h2 h3 low by blast
  have edge: "match_example ''2'' 0.5 \<in> set ?ms" "match_score (match_example ''2'' 0.5) = 1 / 2"
    by (simp_all add: match_example_def)
  have c: "toResult (match_example ''2'' 0.5)
             \<in> set (searchSimilarFeedback env_search world_two ''upload crash'' 20)"
    using t h1 h2 h3 edge by blast
  have "map toResult (filter (\<lambda>m. 1 / 2 \<le> match_score m) ?ms)
          = [toResult (match_example ''1'' 0.8), toResult (match_example ''2'' 0.5)]"
    by (simp add: match_example_def)
  then show ?thesis using h1 h2 a b c edge(2) by simp
qed

section \<open>Properties of the aggregation engine\<close>










lemma q_category_groupRow [simp]: "q_category (groupRow env rows c) = c"
  by (simp add: groupRow_def Let_def)

lemma toInsight_fields [simp]:
  "insight_category (toInsight r) = q_category r"
  "total_count (toInsight r) = q_total r"
  "newCount (toInsight r) = q_new_count r"
  "avgUrgency (toInsight r) = q_avg_urgency r"
  by (simp_all add: toInsight_def)





end
